theory Spec2Isabelle
  imports Main "HOL-Library.Word" "HOL-Library.AList"
begin

section \<open>Node drain orchestrator: the two terminator sources\<close>

text \<open>
  The repository holds two versions of package \<open>terminator\<close>:
  \<^item> \<open>vendor/sigs.k8s.io/karpenter/.../terminator/terminator.go\<close>, whose functions keep
    their names here (\<open>Drain\<close>, \<open>Evict\<close>, \<open>RestartDeployments\<close>, ...);
  \<^item> the unnamed source file \<open>part_000\<close>, whose functions carry the suffix \<open>_p0\<close>
    (\<open>Drain_p0\<close>, \<open>Evict_p0\<close>, \<open>RestartDeployments_p0\<close>, ...).

  Go pointers to API objects are modelled by value: a function that mutates an object
  through its pointer returns the mutated object. A nil pointer is \<open>None\<close>. A run-time
  panic is the result \<open>Panic\<close>, a returned error is \<open>Err\<close>. Reads of the API server are
  functions of the object key (the cluster does not change during one call), and every
  call that the code issues to an external collaborator (Update, Delete, Patch, the
  eviction queue, the event recorder) is appended to a log in the state.
\<close>

subsection \<open>Errors and results\<close>

datatype error =
    ErrorString string
  | NotFound
  | Errorf string error
  | Errorv string "error list"
  | NodeDrainError error

datatype panic = NilDereference | NilMapWrite

datatype 'a res = Ok 'a | Err error | Panic panic

text \<open>\<open>apierrors.IsNotFound\<close>: the NotFound status, also below \<open>%w\<close> wrappers.\<close>

fun IsNotFound :: "error \<Rightarrow> bool" where
  "IsNotFound NotFound = True"
| "IsNotFound (Errorf _ e) = IsNotFound e"
| "IsNotFound _ = False"

subsection \<open>API objects\<close>

record OwnerReference =
  Kind :: string
  RefName :: string
  Controller :: "bool option"

text \<open>
  Only the fields that the code under verification reads. \<open>TerminationGracePeriodSeconds\<close>
  is \<open>*int64\<close>, \<open>Replicas\<close> is \<open>*int32\<close>, \<open>Annotations\<close> is a Go map that may be nil.
  String-keyed maps of API objects are association lists read with \<open>map_of\<close> and
  written with \<open>AList.update\<close>.
\<close>

record Pod =
  PodNamespace :: string
  PodName :: string
  PodOwnerReferences :: "OwnerReference list"
  PriorityClassName :: string
  TerminationGracePeriodSeconds :: "64 word option"

record ReplicaSet =
  RSNamespace :: string
  RSName :: string
  RSOwnerReferences :: "OwnerReference list"

record Deployment =
  DNamespace :: string
  DName :: string
  Replicas :: "32 word option"
  Annotations :: "(string \<times> string) list option"

datatype TaintEffect = NoSchedule | PreferNoSchedule | NoExecute

record Taint =
  TaintKey :: string
  TaintValue :: string
  Effect :: TaintEffect

record Node =
  NodeName :: string
  Taints :: "Taint list"
  Labels :: "(string \<times> string) list"

record ObjectKey =
  Namespace :: string
  Name :: string

subsection \<open>External collaborators\<close>

text \<open>
  The API client (\<open>kubeClient\<close>, \<open>nodeutil.GetPods\<close>), the pod predicates of package
  \<open>podutil\<close> and the wall clock are not part of the sources; they are parameters.
  \<open>Now n\<close> is the reading that the \<open>n\<close>-th call of \<open>time.Now()\<close> returns, in
  nanoseconds.
\<close>

record kube =
  GetPods :: "string \<Rightarrow> error + Pod list"
  Get_ReplicaSet :: "ObjectKey \<Rightarrow> error + ReplicaSet"
  Get_Deployment :: "ObjectKey \<Rightarrow> error + Deployment"
  Update :: "Deployment \<Rightarrow> error option"
  Delete :: "Pod \<Rightarrow> int \<Rightarrow> error option"
  Patch :: "Node \<Rightarrow> Node \<Rightarrow> error option"
  IsWaitingEviction :: "Pod \<Rightarrow> bool"
  IsTerminating :: "Pod \<Rightarrow> bool"
  IsEvictable :: "Pod \<Rightarrow> bool"
  IsOwnedByDaemonSet :: "Pod \<Rightarrow> bool"
  Now :: "nat \<Rightarrow> int"

subsection \<open>Owner resolution, part_000\<close>

text \<open>
  The two loops of \<open>GetDeploymentFromPod\<close> in part_000 differ only in the kind they look
  for. \<open>*ownerRef.Controller\<close> is evaluated first in each iteration and faults on a nil
  pointer; the loop leaves the name empty when no reference matches.
\<close>

fun ownerName_p0 :: "string \<Rightarrow> OwnerReference list \<Rightarrow> string res" where
  "ownerName_p0 kind [] = Ok ''''"
| "ownerName_p0 kind (r # rs) =
     (case Controller r of
        None \<Rightarrow> Panic NilDereference
      | Some c \<Rightarrow> if c \<and> Kind r = kind then Ok (RefName r) else ownerName_p0 kind rs)"

definition GetDeploymentFromPod_p0 :: "kube \<Rightarrow> Pod \<Rightarrow> Deployment option res" where
  "GetDeploymentFromPod_p0 k pod =
     (case ownerName_p0 ''ReplicaSet'' (PodOwnerReferences pod) of
        Panic p \<Rightarrow> Panic p
      | Err e \<Rightarrow> Err e
      | Ok rsName \<Rightarrow>
          if rsName = '''' then Ok None
          else (case Get_ReplicaSet k \<lparr>Namespace = PodNamespace pod, Name = rsName\<rparr> of
             Inl e \<Rightarrow> Err (Errorf ''get rs, '' e)
           | Inr replicaSet \<Rightarrow>
              (case ownerName_p0 ''Deployment'' (RSOwnerReferences replicaSet) of
                 Panic p \<Rightarrow> Panic p
               | Err e \<Rightarrow> Err e
               | Ok dpName \<Rightarrow>
                   if dpName = '''' then Ok None
                   else (case Get_Deployment k \<lparr>Namespace = PodNamespace pod, Name = dpName\<rparr> of
                      Inl e \<Rightarrow> Err (Errorf ''get deployment, '' e)
                    | Inr deployment \<Rightarrow> Ok (Some deployment)))))"

subsection \<open>Owner resolution, terminator.go\<close>

fun getOwnerReplicaSet_refs :: "kube \<Rightarrow> string \<Rightarrow> OwnerReference list \<Rightarrow> ReplicaSet option res" where
  "getOwnerReplicaSet_refs k ns [] = Ok None"
| "getOwnerReplicaSet_refs k ns (r # rs) =
     (if Controller r \<noteq> None \<and> Kind r = ''ReplicaSet''
      then (case Get_ReplicaSet k \<lparr>Namespace = ns, Name = RefName r\<rparr> of
              Inl e \<Rightarrow> Err (Errorf ''get ReplicaSet: '' e)
            | Inr x \<Rightarrow> Ok (Some x))
      else getOwnerReplicaSet_refs k ns rs)"

definition getOwnerReplicaSet :: "kube \<Rightarrow> Pod \<Rightarrow> ReplicaSet option res" where
  "getOwnerReplicaSet k pod = getOwnerReplicaSet_refs k (PodNamespace pod) (PodOwnerReferences pod)"

fun getOwnerDeployment_refs :: "kube \<Rightarrow> string \<Rightarrow> OwnerReference list \<Rightarrow> Deployment option res" where
  "getOwnerDeployment_refs k ns [] = Ok None"
| "getOwnerDeployment_refs k ns (r # rs) =
     (if Controller r \<noteq> None \<and> Kind r = ''Deployment''
      then (case Get_Deployment k \<lparr>Namespace = ns, Name = RefName r\<rparr> of
              Inl e \<Rightarrow> Err (Errorf ''get Deployment: '' e)
            | Inr x \<Rightarrow> Ok (Some x))
      else getOwnerDeployment_refs k ns rs)"

definition getOwnerDeployment :: "kube \<Rightarrow> ReplicaSet \<Rightarrow> Deployment option res" where
  "getOwnerDeployment k rs = getOwnerDeployment_refs k (RSNamespace rs) (RSOwnerReferences rs)"

definition GetDeploymentFromPod :: "kube \<Rightarrow> Pod \<Rightarrow> Deployment option res" where
  "GetDeploymentFromPod k pod =
     (case getOwnerReplicaSet k pod of
        Panic p \<Rightarrow> Panic p
      | Err e \<Rightarrow> Err (Errorf ''failed to get ReplicaSet from Pod: '' e)
      | Ok None \<Rightarrow> Ok None
      | Ok (Some rs) \<Rightarrow>
         (case getOwnerDeployment k rs of
            Panic p \<Rightarrow> Panic p
          | Err e \<Rightarrow> Err (Errorf ''failed to get Deployment from ReplicaSet: '' e)
          | Ok deployment \<Rightarrow> Ok deployment))"

subsection \<open>The state of a Terminator\<close>

text \<open>
  \<open>terminator.go\<close>: the struct field \<open>nodeRestartDeployments\<close> (a map from node names to
  sets of deployment keys; a missing outer entry reads as a nil inner map), the Update
  calls issued through \<open>kubeClient\<close> and the Add calls issued to \<open>evictionQueue\<close>.
\<close>

record Terminator =
  nodeRestartDeployments :: "string \<rightharpoonup> string set"
  Updates :: "Deployment list"
  QueueAdds :: "Pod list list"

definition NewTerminator :: Terminator where
  "NewTerminator = \<lparr>nodeRestartDeployments = Map.empty, Updates = [], QueueAdds = []\<rparr>"

text \<open>
  part_000: the struct has no map; the logs are the Update, Delete and Patch calls, the
  eviction queue's Add calls, the published events (pod, grace period, deadline) and the
  number of \<open>time.Now()\<close> readings taken so far.
\<close>

record Terminator_p0 =
  Updates_p0 :: "Deployment list"
  QueueAdds_p0 :: "Pod list list"
  Deletes_p0 :: "(Pod \<times> int) list"
  Published_p0 :: "(Pod \<times> int \<times> int) list"
  Patches_p0 :: "(Node \<times> Node) list"
  Ticks_p0 :: nat

subsection \<open>RestartDeployments\<close>

definition restartedNode :: string where
  "restartedNode = ''kubectl.kubernetes.io/restartedNode''"

definition restartedAt :: string where
  "restartedAt = ''kubectl.kubernetes.io/restartedAt''"

text \<open>The annotation map after \<open>if Annotations == nil { Annotations = make(...) }\<close>.\<close>

definition annotations :: "Deployment \<Rightarrow> (string \<times> string) list" where
  "annotations d = (case Annotations d of None \<Rightarrow> [] | Some a \<Rightarrow> a)"

definition deploymentKey :: "Deployment \<Rightarrow> string" where
  "deploymentKey d = DNamespace d @ ''/'' @ DName d"

text \<open>
  \<open>terminator.go\<close>, the loop of \<open>RestartDeployments\<close>. The result carries the accumulated
  \<open>updateErrors\<close>, the deployments as the loop leaves them and the state. The write
  \<open>t.nodeRestartDeployments[nodeName][key] = struct{}{}\<close> stands before the Update call
  and panics when the inner map is nil.
\<close>

fun RestartDeployments_loop ::
  "kube \<Rightarrow> string \<Rightarrow> Deployment list \<Rightarrow> error list \<Rightarrow> Terminator
     \<Rightarrow> error list res \<times> Deployment list \<times> Terminator" where
  "RestartDeployments_loop k nodeName [] updateErrors t = (Ok updateErrors, [], t)"
| "RestartDeployments_loop k nodeName (d # ds) updateErrors t =
     (let a = annotations d; d0 = d\<lparr>Annotations := Some a\<rparr> in
      if map_of a restartedNode = Some nodeName
      then (case RestartDeployments_loop k nodeName ds updateErrors t of
              (r, ds', t') \<Rightarrow> (r, d0 # ds', t'))
      else (case nodeRestartDeployments t nodeName of
              None \<Rightarrow> (Panic NilMapWrite, d0 # ds, t)
            | Some s \<Rightarrow>
               (let t1 = t\<lparr>nodeRestartDeployments :=
                             (nodeRestartDeployments t)(nodeName \<mapsto> insert (deploymentKey d) s)\<rparr>;
                    d1 = d0\<lparr>Annotations := Some (AList.update restartedNode nodeName a)\<rparr>;
                    t2 = t1\<lparr>Updates := Updates t1 @ [d1]\<rparr>;
                    errs = (case Update k d1 of
                              Some err \<Rightarrow> updateErrors @ [err]
                            | None \<Rightarrow> updateErrors)
                in (case RestartDeployments_loop k nodeName ds errs t2 of
                      (r, ds', t') \<Rightarrow> (r, d1 # ds', t')))))"

definition RestartDeployments ::
  "kube \<Rightarrow> Deployment list \<Rightarrow> string \<Rightarrow> Terminator \<Rightarrow> unit res \<times> Deployment list \<times> Terminator" where
  "RestartDeployments k deployments nodeName t =
     (case RestartDeployments_loop k nodeName deployments [] t of
        (Panic p, ds, t') \<Rightarrow> (Panic p, ds, t')
      | (Err e, ds, t') \<Rightarrow> (Err e, ds, t')
      | (Ok updateErrors, ds, t') \<Rightarrow>
          (if length updateErrors > 0
           then Err (Errorv ''failed to restart some deployment: '' updateErrors)
           else Ok (), ds, t'))"

text \<open>
  part_000: the marker is read under \<open>restartedNode\<close> and written under \<open>restartedAt\<close>;
  the first failing Update returns.
\<close>

fun RestartDeployments_p0 ::
  "kube \<Rightarrow> Deployment list \<Rightarrow> string \<Rightarrow> Terminator_p0
     \<Rightarrow> unit res \<times> Deployment list \<times> Terminator_p0" where
  "RestartDeployments_p0 k [] nodeName t = (Ok (), [], t)"
| "RestartDeployments_p0 k (d # ds) nodeName t =
     (let a = annotations d; d0 = d\<lparr>Annotations := Some a\<rparr> in
      if map_of a restartedNode = Some nodeName
      then (case RestartDeployments_p0 k ds nodeName t of
              (r, ds', t') \<Rightarrow> (r, d0 # ds', t'))
      else (let d1 = d0\<lparr>Annotations := Some (AList.update restartedAt nodeName a)\<rparr>;
                t1 = t\<lparr>Updates_p0 := Updates_p0 t @ [d1]\<rparr>
            in (case Update k d1 of
                  Some err \<Rightarrow> (Err err, d1 # ds, t1)
                | None \<Rightarrow>
                   (case RestartDeployments_p0 k ds nodeName t1 of
                      (r, ds', t') \<Rightarrow> (r, d1 # ds', t')))))"

subsection \<open>Restart and drain classification, terminator.go\<close>

definition podKey :: "Pod \<Rightarrow> string" where
  "podKey pod = PodNamespace pod @ ''/'' @ PodName pod"

type_synonym deploymentCache = "string \<rightharpoonup> Deployment option"

definition getDeploymentFromCache ::
  "kube \<Rightarrow> Pod \<Rightarrow> deploymentCache \<Rightarrow> (Deployment option \<times> deploymentCache) res" where
  "getDeploymentFromCache k pod cache =
     (case cache (podKey pod) of
        Some deployment \<Rightarrow> Ok (deployment, cache)
      | None \<Rightarrow>
         (case GetDeploymentFromPod k pod of
            Panic p \<Rightarrow> Panic p
          | Err e \<Rightarrow> Err e
          | Ok deployment \<Rightarrow> Ok (deployment, cache(podKey pod \<mapsto> deployment))))"

text \<open>
  First loop of \<open>GetRestartdeploymentsAndDrainPods\<close>. \<open>nodeDeploymentReplicas\<close> is a
  \<open>map[string]int32\<close>, read with the zero default: a function into 32-bit words.
\<close>

fun tally ::
  "kube \<Rightarrow> Pod list \<Rightarrow> deploymentCache \<Rightarrow> (string \<Rightarrow> 32 word)
     \<Rightarrow> (deploymentCache \<times> (string \<Rightarrow> 32 word)) res" where
  "tally k [] cache n = Ok (cache, n)"
| "tally k (pod # pods) cache n =
     (case getDeploymentFromCache k pod cache of
        Panic p \<Rightarrow> Panic p
      | Err e \<Rightarrow> Err e
      | Ok (None, cache') \<Rightarrow> tally k pods cache' n
      | Ok (Some deployment, cache') \<Rightarrow>
          tally k pods cache' (n(deploymentKey deployment := n (deploymentKey deployment) + 1)))"

text \<open>
  Second loop. \<open>key := deployment.Namespace + "/" + deployment.Name\<close> is computed before
  the test \<open>deployment != nil\<close>, and \<open>*deployment.Spec.Replicas\<close> is dereferenced in
  the test.
\<close>

fun classify ::
  "Terminator \<Rightarrow> string \<Rightarrow> deploymentCache \<Rightarrow> (string \<Rightarrow> 32 word) \<Rightarrow> Pod list
     \<Rightarrow> string set \<Rightarrow> Deployment list \<Rightarrow> Pod list \<Rightarrow> (Deployment list \<times> Pod list) res" where
  "classify t nodeName cache n [] uniqueDeployments restartDeployments drainPods =
     Ok (restartDeployments, drainPods)"
| "classify t nodeName cache n (pod # pods) uniqueDeployments restartDeployments drainPods =
     (case cache (podKey pod) of
        None \<Rightarrow> Panic NilDereference
      | Some None \<Rightarrow> Panic NilDereference
      | Some (Some deployment) \<Rightarrow>
         (case Replicas deployment of
            None \<Rightarrow> Panic NilDereference
          | Some r \<Rightarrow>
             if n (deploymentKey deployment) = r
             then (if deploymentKey deployment \<in> uniqueDeployments
                   then classify t nodeName cache n pods uniqueDeployments restartDeployments drainPods
                   else classify t nodeName cache n pods
                          (insert (deploymentKey deployment) uniqueDeployments)
                          (restartDeployments @ [deployment]) drainPods)
             else if (case nodeRestartDeployments t nodeName of
                        None \<Rightarrow> False
                      | Some s \<Rightarrow> deploymentKey deployment \<in> s)
             then classify t nodeName cache n pods uniqueDeployments restartDeployments drainPods
             else classify t nodeName cache n pods uniqueDeployments restartDeployments
                    (drainPods @ [pod])))"

definition GetRestartdeploymentsAndDrainPods ::
  "kube \<Rightarrow> Terminator \<Rightarrow> Pod list \<Rightarrow> string \<Rightarrow> (Deployment list \<times> Pod list) res" where
  "GetRestartdeploymentsAndDrainPods k t pods nodeName =
     (case tally k pods Map.empty (\<lambda>_. 0) of
        Panic p \<Rightarrow> Panic p
      | Err e \<Rightarrow> Err e
      | Ok (cache, n) \<Rightarrow> classify t nodeName cache n pods {} [] [])"

subsection \<open>Restart and drain classification, part_000\<close>

definition deploymentKey_p0 :: "Deployment \<Rightarrow> string" where
  "deploymentKey_p0 d = DNamespace d @ '':'' @ DName d"

fun tally_p0 :: "kube \<Rightarrow> Pod list \<Rightarrow> (string \<Rightarrow> 32 word) \<Rightarrow> (string \<Rightarrow> 32 word) res" where
  "tally_p0 k [] n = Ok n"
| "tally_p0 k (pod # pods) n =
     (case GetDeploymentFromPod_p0 k pod of
        Panic p \<Rightarrow> Panic p
      | Err e \<Rightarrow> Err e
      | Ok None \<Rightarrow> tally_p0 k pods n
      | Ok (Some deployment) \<Rightarrow>
          tally_p0 k pods (n(deploymentKey_p0 deployment := n (deploymentKey_p0 deployment) + 1)))"

fun classify_p0 ::
  "kube \<Rightarrow> (string \<Rightarrow> 32 word) \<Rightarrow> Pod list \<Rightarrow> Deployment list \<Rightarrow> Pod list
     \<Rightarrow> (Deployment list \<times> Pod list) res" where
  "classify_p0 k n [] restartDeployments drainPods = Ok (restartDeployments, drainPods)"
| "classify_p0 k n (pod # pods) restartDeployments drainPods =
     (case GetDeploymentFromPod_p0 k pod of
        Panic p \<Rightarrow> Panic p
      | Err e \<Rightarrow> Err e
      | Ok None \<Rightarrow> classify_p0 k n pods restartDeployments (drainPods @ [pod])
      | Ok (Some deployment) \<Rightarrow>
         (case Replicas deployment of
            None \<Rightarrow> Panic NilDereference
          | Some r \<Rightarrow>
             if n (deploymentKey_p0 deployment) = r
             then classify_p0 k n pods (restartDeployments @ [deployment]) drainPods
             else classify_p0 k n pods restartDeployments (drainPods @ [pod])))"

definition GetdeploymentsAndDrainPodsFromNode_p0 ::
  "kube \<Rightarrow> Node \<Rightarrow> (Deployment list \<times> Pod list) res" where
  "GetdeploymentsAndDrainPodsFromNode_p0 k node =
     (case GetPods k (NodeName node) of
        Inl err \<Rightarrow> Err (Errorf ''listing pods on node, '' err)
      | Inr nodePods \<Rightarrow>
         (case tally_p0 k nodePods (\<lambda>_. 0) of
            Panic p \<Rightarrow> Panic p
          | Err e \<Rightarrow> Err e
          | Ok n \<Rightarrow> classify_p0 k n nodePods [] []))"

subsection \<open>Evict\<close>

text \<open>
  The partition loop is the same in both sources; the accumulators are in the order of
  the declaration \<open>criticalNonDaemon, criticalDaemon, nonCriticalNonDaemon,
  nonCriticalDaemon\<close>.
\<close>

fun Evict_loop ::
  "kube \<Rightarrow> Pod list \<Rightarrow> Pod list \<Rightarrow> Pod list \<Rightarrow> Pod list \<Rightarrow> Pod list
     \<Rightarrow> Pod list \<times> Pod list \<times> Pod list \<times> Pod list" where
  "Evict_loop k [] criticalNonDaemon criticalDaemon nonCriticalNonDaemon nonCriticalDaemon =
     (criticalNonDaemon, criticalDaemon, nonCriticalNonDaemon, nonCriticalDaemon)"
| "Evict_loop k (pod # pods) criticalNonDaemon criticalDaemon nonCriticalNonDaemon nonCriticalDaemon =
     (if PriorityClassName pod = ''system-cluster-critical''
         \<or> PriorityClassName pod = ''system-node-critical''
      then (if IsOwnedByDaemonSet k pod
            then Evict_loop k pods criticalNonDaemon (criticalDaemon @ [pod])
                   nonCriticalNonDaemon nonCriticalDaemon
            else Evict_loop k pods (criticalNonDaemon @ [pod]) criticalDaemon
                   nonCriticalNonDaemon nonCriticalDaemon)
      else (if IsOwnedByDaemonSet k pod
            then Evict_loop k pods criticalNonDaemon criticalDaemon
                   nonCriticalNonDaemon (nonCriticalDaemon @ [pod])
            else Evict_loop k pods criticalNonDaemon criticalDaemon
                   (nonCriticalNonDaemon @ [pod]) nonCriticalDaemon))"

definition Evict :: "kube \<Rightarrow> Pod list \<Rightarrow> Terminator \<Rightarrow> Terminator" where
  "Evict k pods t =
     (case Evict_loop k pods [] [] [] [] of
        (criticalNonDaemon, criticalDaemon, nonCriticalNonDaemon, nonCriticalDaemon) \<Rightarrow>
          if length nonCriticalNonDaemon \<noteq> 0
          then t\<lparr>QueueAdds := QueueAdds t @ [nonCriticalNonDaemon]\<rparr>
          else if length nonCriticalDaemon \<noteq> 0
          then t\<lparr>QueueAdds := QueueAdds t @ [nonCriticalDaemon]\<rparr>
          else if length criticalNonDaemon \<noteq> 0
          then t\<lparr>QueueAdds := QueueAdds t @ [criticalNonDaemon]\<rparr>
          else if length criticalDaemon \<noteq> 0
          then t\<lparr>QueueAdds := QueueAdds t @ [criticalDaemon]\<rparr>
          else t)"

fun EvictInOrder_p0 :: "Pod list list \<Rightarrow> Terminator_p0 \<Rightarrow> Terminator_p0" where
  "EvictInOrder_p0 [] t = t"
| "EvictInOrder_p0 (podList # pods) t =
     (if length podList > 0
      then t\<lparr>QueueAdds_p0 := QueueAdds_p0 t @ [podList]\<rparr>
      else EvictInOrder_p0 pods t)"

definition Evict_p0 :: "kube \<Rightarrow> Pod list \<Rightarrow> Terminator_p0 \<Rightarrow> Terminator_p0" where
  "Evict_p0 k pods t =
     (case Evict_loop k pods [] [] [] [] of
        (criticalNonDaemon, criticalDaemon, nonCriticalNonDaemon, nonCriticalDaemon) \<Rightarrow>
          EvictInOrder_p0
            [nonCriticalNonDaemon, nonCriticalDaemon, criticalNonDaemon, criticalDaemon] t)"

subsection \<open>DeleteExpiringPods, part_000\<close>

text \<open>
  Times are wall-clock nanoseconds (\<open>int\<close>), a \<open>time.Duration\<close> is an \<open>int64\<close> of
  nanoseconds. \<open>time.Duration(g) * time.Second * -1\<close> wraps in 64 bits; \<open>Time.Add\<close>
  is exact.
\<close>

definition podDeleteTimeWithGracePeriod_p0 :: "int option \<Rightarrow> Pod \<Rightarrow> int option" where
  "podDeleteTimeWithGracePeriod_p0 nodeGracePeriodExpirationTime pod =
     (case nodeGracePeriodExpirationTime of
        None \<Rightarrow> None
      | Some expiration \<Rightarrow>
         (case TerminationGracePeriodSeconds pod of
            None \<Rightarrow> None
          | Some g \<Rightarrow> Some (expiration + sint (g * 1000000000 * (- 1)))))"

text \<open>\<open>Time.Sub\<close> saturates at the bounds of \<open>int64\<close>.\<close>

definition Sub :: "int \<Rightarrow> int \<Rightarrow> int" where
  "Sub t u =
     (if - (2 ^ 63) \<le> t - u \<and> t - u < 2 ^ 63 then t - u
      else if t < u then - (2 ^ 63) else 2 ^ 63 - 1)"

text \<open>
  \<open>int64(d.Seconds())\<close>: \<open>Seconds\<close> is \<open>float64(d / Second) + float64(d % Second) / 1e9\<close>
  and the conversion truncates towards zero. For \<open>\<bar>d\<bar>\<close> below \<open>2 ^ 23\<close> seconds the
  floating-point sum stays below the next whole second, so the result is the integer
  quotient truncated towards zero, which is what this definition computes.
\<close>

definition Seconds_int64 :: "int \<Rightarrow> int" where
  "Seconds_int64 d = sgn d * (\<bar>d\<bar> div 1000000000)"

text \<open>
  The body of the loop of \<open>DeleteExpiringPods\<close>. \<open>time.Now()\<close> is read once for the
  test (only when \<open>deleteTime\<close> is not nil) and once more inside \<open>time.Until\<close>.
\<close>

definition DeleteExpiringPods_body ::
  "kube \<Rightarrow> int option \<Rightarrow> Pod \<Rightarrow> Terminator_p0 \<Rightarrow> unit res \<times> Terminator_p0" where
  "DeleteExpiringPods_body k nodeGracePeriodTerminationTime pod t =
     (case podDeleteTimeWithGracePeriod_p0 nodeGracePeriodTerminationTime pod of
        None \<Rightarrow> (Ok (), t)
      | Some deleteTime \<Rightarrow>
         (let now1 = Now k (Ticks_p0 t); t1 = t\<lparr>Ticks_p0 := Suc (Ticks_p0 t)\<rparr> in
          if now1 > deleteTime
          then (case nodeGracePeriodTerminationTime of
                  None \<Rightarrow> (Panic NilDereference, t1)
                | Some expiration \<Rightarrow>
                   (let gracePeriodSeconds = Seconds_int64 (Sub expiration (Now k (Ticks_p0 t1)));
                        t2 = t1\<lparr>Ticks_p0 := Suc (Ticks_p0 t1),
                                Published_p0 := Published_p0 t1 @ [(pod, gracePeriodSeconds, expiration)],
                                Deletes_p0 := Deletes_p0 t1 @ [(pod, gracePeriodSeconds)]\<rparr>
                    in (case Delete k pod gracePeriodSeconds of
                          None \<Rightarrow> (Ok (), t2)
                        | Some err \<Rightarrow>
                            if \<not> IsNotFound err
                            then (Err (Errorf ''deleting pod, '' err), t2)
                            else (Ok (), t2))))
          else (Ok (), t1)))"

fun DeleteExpiringPods_p0 ::
  "kube \<Rightarrow> Pod list \<Rightarrow> int option \<Rightarrow> Terminator_p0 \<Rightarrow> unit res \<times> Terminator_p0" where
  "DeleteExpiringPods_p0 k [] nodeGracePeriodTerminationTime t = (Ok (), t)"
| "DeleteExpiringPods_p0 k (pod # pods) nodeGracePeriodTerminationTime t =
     (case DeleteExpiringPods_body k nodeGracePeriodTerminationTime pod t of
        (Ok _, t') \<Rightarrow> DeleteExpiringPods_p0 k pods nodeGracePeriodTerminationTime t'
      | (Err e, t') \<Rightarrow> (Err e, t')
      | (Panic p, t') \<Rightarrow> (Panic p, t'))"

subsection \<open>Drain\<close>




subsection \<open>Taint, part_000\<close>

definition LabelNodeExcludeBalancers :: string where
  "LabelNodeExcludeBalancers = ''node.kubernetes.io/exclude-from-external-load-balancers''"

text \<open>\<open>Taint.MatchTaint\<close> of the Kubernetes API: same key and same effect.\<close>

definition MatchTaint :: "Taint \<Rightarrow> Taint \<Rightarrow> bool" where
  "MatchTaint x taintToMatch \<longleftrightarrow> TaintKey x = TaintKey taintToMatch \<and> Effect x = Effect taintToMatch"

text \<open>
  \<open>Taint\<close> returns its result, the node as mutated through the pointer and the state
  with the Patch call, if one was issued.
\<close>

definition Taint_p0 ::
  "kube \<Rightarrow> Node \<Rightarrow> Taint \<Rightarrow> Terminator_p0 \<Rightarrow> unit res \<times> Node \<times> Terminator_p0" where
  "Taint_p0 k node taint t =
     (let stored = node;
          node1 = (case find (\<lambda>x. MatchTaint x taint) (Taints node) of
                     Some _ \<Rightarrow> node
                   | None \<Rightarrow>
                       node\<lparr>Taints := filter (\<lambda>x. \<not> (TaintKey x = TaintKey taint)) (Taints node)
                                        @ [taint]\<rparr>);
          node2 = node1\<lparr>Labels := AList.update LabelNodeExcludeBalancers ''karpenter'' (Labels node1)\<rparr>
      in if node2 \<noteq> stored
         then (case Patch k node2 stored of
                 Some err \<Rightarrow> (Err err, node2, t\<lparr>Patches_p0 := Patches_p0 t @ [(node2, stored)]\<rparr>)
               | None \<Rightarrow> (Ok (), node2, t\<lparr>Patches_p0 := Patches_p0 t @ [(node2, stored)]\<rparr>))
         else (Ok (), node2, t))"

section \<open>Concrete clusters\<close>

text \<open>
  A client whose reads find nothing and whose writes succeed, a deployment \<open>web\<close> with
  two replicas behind the replica set \<open>web-5d4f\<close>, a deployment \<open>api\<close> with one
  replica, pods of \<open>web\<close>, a pod without owner, a pod owned by its node and a node
  \<open>n1\<close>.
\<close>

definition kube0 :: kube where
  "kube0 = \<lparr>GetPods = (\<lambda>_. Inr []),
            Get_ReplicaSet = (\<lambda>_. Inl NotFound),
            Get_Deployment = (\<lambda>_. Inl NotFound),
            Update = (\<lambda>_. None),
            Delete = (\<lambda>_ _. None),
            Patch = (\<lambda>_ _. None),
            IsWaitingEviction = (\<lambda>_. False),
            IsTerminating = (\<lambda>_. False),
            IsEvictable = (\<lambda>_. True),
            IsOwnedByDaemonSet = (\<lambda>_. False),
            Now = (\<lambda>_. 0)\<rparr>"

definition NewTerminator_p0 :: Terminator_p0 where
  "NewTerminator_p0 = \<lparr>Updates_p0 = [], QueueAdds_p0 = [], Deletes_p0 = [], Published_p0 = [],
     Patches_p0 = [], Ticks_p0 = 0\<rparr>"

definition web :: Deployment where
  "web = \<lparr>DNamespace = ''prod'', DName = ''web'', Replicas = Some 2, Annotations = None\<rparr>"

definition api :: Deployment where
  "api = \<lparr>DNamespace = ''prod'', DName = ''api'', Replicas = Some 1, Annotations = None\<rparr>"

definition web_rs :: ReplicaSet where
  "web_rs = \<lparr>RSNamespace = ''prod'', RSName = ''web-5d4f'',
     RSOwnerReferences = [\<lparr>Kind = ''Deployment'', RefName = ''web'', Controller = Some True\<rparr>]\<rparr>"

definition web_pod :: "string \<Rightarrow> Pod" where
  "web_pod nm = \<lparr>PodNamespace = ''prod'', PodName = nm,
     PodOwnerReferences = [\<lparr>Kind = ''ReplicaSet'', RefName = ''web-5d4f'', Controller = Some True\<rparr>],
     PriorityClassName = ''default'', TerminationGracePeriodSeconds = Some 30\<rparr>"

definition bare_pod :: Pod where
  "bare_pod = \<lparr>PodNamespace = ''prod'', PodName = ''bare'', PodOwnerReferences = [],
     PriorityClassName = ''default'', TerminationGracePeriodSeconds = Some 30\<rparr>"

definition node_pod :: Pod where
  "node_pod = \<lparr>PodNamespace = ''kube-system'', PodName = ''static-n1'',
     PodOwnerReferences = [\<lparr>Kind = ''Node'', RefName = ''n1'', Controller = None\<rparr>],
     PriorityClassName = ''system-node-critical'', TerminationGracePeriodSeconds = Some 30\<rparr>"

definition kube_web :: kube where
  "kube_web = kube0\<lparr>
     GetPods := (\<lambda>_. Inr [web_pod ''web-a'', web_pod ''web-b'']),
     Get_ReplicaSet := (\<lambda>key. if key = \<lparr>Namespace = ''prod'', Name = ''web-5d4f''\<rparr>
                               then Inr web_rs else Inl NotFound),
     Get_Deployment := (\<lambda>key. if key = \<lparr>Namespace = ''prod'', Name = ''web''\<rparr>
                               then Inr web else Inl NotFound)\<rparr>"

definition kube_fail_api :: kube where
  "kube_fail_api =
     kube0\<lparr>Update := (\<lambda>d. if DName d = ''api'' then Some (ErrorString ''conflict'') else None)\<rparr>"

definition node_n1 :: Node where
  "node_n1 = \<lparr>NodeName = ''n1'', Taints = [], Labels = []\<rparr>"

text \<open>A deployment as an attempted restart leaves it: the marker \<open>key\<close> set to the node name.\<close>

definition stamped :: "string \<Rightarrow> string \<Rightarrow> Deployment \<Rightarrow> Deployment" where
  "stamped key nodeName d = d\<lparr>Annotations := Some (AList.update key nodeName (annotations d))\<rparr>"




definition kube_at :: "int \<Rightarrow> kube" where
  "kube_at now = kube0\<lparr>Now := (\<lambda>_. now)\<rparr>"

definition zero_grace_pod :: Pod where
  "zero_grace_pod = bare_pod\<lparr>PodName := ''now'', TerminationGracePeriodSeconds := Some 0\<rparr>"

definition daemon_pod :: Pod where
  "daemon_pod = \<lparr>PodNamespace = ''kube-system'', PodName = ''proxy-n1'',
     PodOwnerReferences = [\<lparr>Kind = ''DaemonSet'', RefName = ''proxy'', Controller = Some True\<rparr>],
     PriorityClassName = ''system-node-critical'', TerminationGracePeriodSeconds = Some 30\<rparr>"

definition kube_daemon :: kube where
  "kube_daemon = kube0\<lparr>IsOwnedByDaemonSet := (\<lambda>p. PodName p = ''proxy-n1'')\<rparr>"

definition k_taint :: Taint where
  "k_taint = \<lparr>TaintKey = ''karpenter.sh/disrupted'', TaintValue = [], Effect = NoSchedule\<rparr>"

definition node_two_effects :: Node where
  "node_two_effects = \<lparr>NodeName = ''n1'',
     Taints = [\<lparr>TaintKey = ''karpenter.sh/disrupted'', TaintValue = ''old'', Effect = NoSchedule\<rparr>,
               \<lparr>TaintKey = ''karpenter.sh/disrupted'', TaintValue = ''old'', Effect = NoExecute\<rparr>],
     Labels = []\<rparr>"

definition node_other_effect :: Node where
  "node_other_effect = \<lparr>NodeName = ''n1'',
     Taints = [\<lparr>TaintKey = ''karpenter.sh/disrupted'', TaintValue = ''old'', Effect = NoExecute\<rparr>,
               \<lparr>TaintKey = ''dedicated'', TaintValue = ''gpu'', Effect = NoSchedule\<rparr>],
     Labels = [(''zone'', ''a'')]\<rparr>"

section \<open>Notions of the specification\<close>

text \<open>
  The four eviction tiers of the specification, in the order of preference, and the
  tier of a pod: critical priority class crossed with daemon ownership.
\<close>

datatype tier = NonCriticalNonDaemon | NonCriticalDaemon | CriticalNonDaemon | CriticalDaemon

definition critical :: "Pod \<Rightarrow> bool" where
  "critical pod \<longleftrightarrow>
     PriorityClassName pod \<in> {''system-cluster-critical'', ''system-node-critical''}"

definition tierOf :: "kube \<Rightarrow> Pod \<Rightarrow> tier" where
  "tierOf k pod =
     (if critical pod
      then (if IsOwnedByDaemonSet k pod then CriticalDaemon else CriticalNonDaemon)
      else (if IsOwnedByDaemonSet k pod then NonCriticalDaemon else NonCriticalNonDaemon))"

definition tierPods :: "kube \<Rightarrow> Pod list \<Rightarrow> tier \<Rightarrow> Pod list" where
  "tierPods k pods x = filter (\<lambda>p. tierOf k p = x) pods"

definition tierOrder :: "tier list" where
  "tierOrder = [NonCriticalNonDaemon, NonCriticalDaemon, CriticalNonDaemon, CriticalDaemon]"

fun tierRank :: "tier \<Rightarrow> nat" where
  "tierRank NonCriticalNonDaemon = 0"
| "tierRank NonCriticalDaemon = 1"
| "tierRank CriticalNonDaemon = 2"
| "tierRank CriticalDaemon = 3"

definition firstTier :: "kube \<Rightarrow> Pod list \<Rightarrow> tier option" where
  "firstTier k pods = find (\<lambda>x. tierPods k pods x \<noteq> []) tierOrder"

text \<open>
  The deployments of a list whose restart is attempted for a node: those whose marker
  \<open>restartedNode\<close> is not the node name already.
\<close>

definition attempted :: "string \<Rightarrow> Deployment list \<Rightarrow> Deployment list" where
  "attempted nodeName ds =
     filter (\<lambda>d. map_of (annotations d) restartedNode \<noteq> Some nodeName) ds"

text \<open>
  A pod is expiring at \<open>now\<close> when \<open>now\<close> is after the deadline minus its grace period;
  the remaining time to the deadline in whole seconds, truncated towards zero.
\<close>

definition expiring :: "int \<Rightarrow> int \<Rightarrow> Pod \<Rightarrow> bool" where
  "expiring deadline now pod =
     (case TerminationGracePeriodSeconds pod of
        None \<Rightarrow> False
      | Some g \<Rightarrow> now > deadline - sint g * 1000000000)"

definition remainingSeconds :: "int \<Rightarrow> int \<Rightarrow> int" where
  "remainingSeconds deadline now = sgn (deadline - now) * (\<bar>deadline - now\<bar> div 1000000000)"

text \<open>The pods that resolve to a deployment of a given key.\<close>

definition resolvesTo :: "kube \<Rightarrow> string \<Rightarrow> Pod \<Rightarrow> bool" where
  "resolvesTo k key pod =
     (case GetDeploymentFromPod k pod of Ok (Some d) \<Rightarrow> deploymentKey d = key | _ \<Rightarrow> False)"

section \<open>Owner resolution\<close>

lemma GetDeploymentFromPod_p0_web: "GetDeploymentFromPod_p0 kube_web (web_pod nm) = Ok (Some web)"
  by (simp add: GetDeploymentFromPod_p0_def kube_web_def kube0_def web_pod_def web_rs_def)

lemma GetDeploymentFromPod_web: "GetDeploymentFromPod kube_web (web_pod nm) = Ok (Some web)"
  by (simp add: GetDeploymentFromPod_def getOwnerReplicaSet_def getOwnerDeployment_def
      kube_web_def kube0_def web_pod_def web_rs_def)

lemma GetPods_kube_web: "GetPods kube_web n = Inr [web_pod ''web-a'', web_pod ''web-b'']"
  by (simp add: kube_web_def kube0_def)

text \<open>
  In \<open>terminator.go\<close> the owner loops test \<open>ownerRef.Controller != nil\<close> and never
  dereference: resolution does not fault.
\<close>

lemma getOwnerReplicaSet_refs_no_panic: "getOwnerReplicaSet_refs k ns refs \<noteq> Panic p"
  by (induction refs) (auto split: sum.splits)

lemma getOwnerDeployment_refs_no_panic: "getOwnerDeployment_refs k ns refs \<noteq> Panic p"
  by (induction refs) (auto split: sum.splits)

lemma GetDeploymentFromPod_no_panic: "GetDeploymentFromPod k pod \<noteq> Panic p"
  using getOwnerReplicaSet_refs_no_panic [of k "PodNamespace pod" "PodOwnerReferences pod"]
        getOwnerDeployment_refs_no_panic [of k]
  by (auto simp: GetDeploymentFromPod_def getOwnerReplicaSet_def getOwnerDeployment_def
           split: res.splits option.splits)

text \<open>
  Claim C10: resolving the owning deployment of a pod is total; an owner reference whose
  controller field is unset is not a controlling owner and resolution completes without
  fault. In part_000 the loop evaluates \<open>*ownerRef.Controller\<close> on every reference it
  visits: the pod \<open>node_pod\<close>, whose only owner reference has no controller field,
  makes \<open>GetDeploymentFromPod\<close> panic with a nil dereference.
\<close>

theorem GetDeploymentFromPod_p0_unset_controller_panics:
  "GetDeploymentFromPod_p0 kube0 node_pod = Panic NilDereference"
  by (simp add: GetDeploymentFromPod_p0_def node_pod_def)

section \<open>Restart and drain classification\<close>

text \<open>
  Claim C1: a deployment is in the restart set iff the number of its pods on the node
  equals its desired replicas, and it is there exactly once. In part_000 the second loop
  of \<open>GetdeploymentsAndDrainPodsFromNode\<close> appends the deployment once for every pod of
  it: with both replicas of \<open>web\<close> on the node, the restart set holds \<open>web\<close> twice.
\<close>

theorem GetdeploymentsAndDrainPodsFromNode_p0_duplicates:
  "GetdeploymentsAndDrainPodsFromNode_p0 kube_web node_n1 = Ok ([web, web], [])"
  by (simp add: GetdeploymentsAndDrainPodsFromNode_p0_def GetPods_kube_web
      GetDeploymentFromPod_p0_web deploymentKey_p0_def web_def)

text \<open>
  Claim C5: a pod for which no owning deployment resolves is placed in the drain set,
  and resolving it returns no error. In \<open>terminator.go\<close> the second loop of
  \<open>GetRestartdeploymentsAndDrainPods\<close> reads \<open>deployment.Namespace\<close> before it tests
  \<open>deployment != nil\<close>: a pod without owner makes the classification panic, and no
  drain set is returned.
\<close>

theorem GetRestartdeploymentsAndDrainPods_bare_pod_panics:
  "GetRestartdeploymentsAndDrainPods kube0 NewTerminator [bare_pod] ''n1'' = Panic NilDereference"
  by (simp add: GetRestartdeploymentsAndDrainPods_def getDeploymentFromCache_def
      GetDeploymentFromPod_def getOwnerReplicaSet_def bare_pod_def podKey_def)

subsection \<open>What the two classifications do guarantee\<close>

text \<open>
  part_000: when the classification returns, every listed pod that resolves to no
  deployment is in the drain set.
\<close>

lemma classify_p0_unresolved_drained:
  assumes "classify_p0 k n pods rd dp = Ok (rd', dp')"
  shows "set dp \<subseteq> set dp'
       \<and> (\<forall>p\<in>set pods. GetDeploymentFromPod_p0 k p = Ok None \<longrightarrow> p \<in> set dp')"
  using assms
proof (induction pods arbitrary: rd dp)
  case Nil
  then show ?case by simp
next
  case (Cons pod pods)
  show ?case
  proof (cases "GetDeploymentFromPod_p0 k pod")
    case (Ok d)
    show ?thesis
    proof (cases d)
      case None
      with Ok Cons.prems have "classify_p0 k n pods rd (dp @ [pod]) = Ok (rd', dp')"
        by simp
      from Cons.IH [OF this] show ?thesis by auto
    next
      case (Some deployment)
      show ?thesis
      proof (cases "Replicas deployment")
        case None
        with Ok Some Cons.prems show ?thesis by simp
      next
        case (Some r)
        show ?thesis
        proof (cases "n (deploymentKey_p0 deployment) = r")
          case True
          with Ok \<open>d = Some deployment\<close> Some Cons.prems
          have "classify_p0 k n pods (rd @ [deployment]) dp = Ok (rd', dp')"
            by simp
          from Cons.IH [OF this] Ok \<open>d = Some deployment\<close> show ?thesis by auto
        next
          case False
          with Ok \<open>d = Some deployment\<close> Some Cons.prems
          have "classify_p0 k n pods rd (dp @ [pod]) = Ok (rd', dp')"
            by simp
          from Cons.IH [OF this] show ?thesis by auto
        qed
      qed
    qed
  next
    case (Err e)
    with Cons.prems show ?thesis by simp
  next
    case (Panic p)
    with Cons.prems show ?thesis by simp
  qed
qed

lemma GetdeploymentsAndDrainPodsFromNode_p0_unresolved_drained:
  assumes "GetPods k (NodeName node) = Inr pods"
      and "GetdeploymentsAndDrainPodsFromNode_p0 k node = Ok (rd, dp)"
      and "p \<in> set pods" and "GetDeploymentFromPod_p0 k p = Ok None"
  shows "p \<in> set dp"
proof -
  from assms(1,2) obtain n where "classify_p0 k n pods [] [] = Ok (rd, dp)"
    by (auto simp: GetdeploymentsAndDrainPodsFromNode_p0_def split: res.splits)
  from classify_p0_unresolved_drained [OF this] assms(3,4) show ?thesis by blast
qed

text \<open>
  \<open>terminator.go\<close>: the counter is an \<open>int32\<close>, compared with the desired replicas
  as such; below \<open>2 ^ 31\<close> pods the comparison is that of the numbers.
\<close>

lemma count_eq_replicas:
  fixes r :: "32 word"
  assumes "c < 2 ^ 31"
  shows "(of_nat c = r) = (int c = sint r)"
proof
  assume "of_nat c = r"
  then have "sint r = sint (word_of_int (int c) :: 32 word)"
    by simp
  also have "\<dots> = signed_take_bit 31 (int c)"
    using sint_sbintrunc' [where 'a = 32, of "int c"] by simp
  also have "\<dots> = int c"
  proof (rule signed_take_bit_int_eq_self)
    show "- (2 ^ 31) \<le> int c" by simp
    have "int c < int (2 ^ 31)" using assms by (simp only: of_nat_less_iff)
    then show "int c < 2 ^ 31" by simp
  qed
  finally show "int c = sint r" by simp
next
  assume "int c = sint r"
  then have "(word_of_int (int c) :: 32 word) = word_of_int (sint r)"
    by simp
  then show "of_nat c = r"
    by simp
qed

text \<open>
  The first loop, started on an empty cache with pods of distinct keys: the cache then
  holds the resolution of every pod and the counter of a key is the number of pods
  resolving to a deployment of that key.
\<close>

lemma tally_run:
  assumes "tally k pods cache n = Ok (cache', n')"
      and "distinct (map podKey pods)"
      and "\<forall>p\<in>set pods. cache (podKey p) = None"
  shows "(\<forall>p\<in>set pods. \<exists>d. GetDeploymentFromPod k p = Ok d \<and> cache' (podKey p) = Some d)
       \<and> (\<forall>key. cache key \<noteq> None \<longrightarrow> cache' key = cache key)
       \<and> (\<forall>key. n' key = n key + of_nat (length (filter (resolvesTo k key) pods)))"
  using assms
proof (induction pods arbitrary: cache n)
  case Nil
  then show ?case by simp
next
  case (Cons pod pods)
  have c0: "cache (podKey pod) = None" using Cons.prems(3) by simp
  from Cons.prems(1) c0 obtain d where d: "GetDeploymentFromPod k pod = Ok d"
    by (cases "GetDeploymentFromPod k pod") (auto simp: getDeploymentFromCache_def)
  let ?c1 = "cache(podKey pod \<mapsto> d)"
  let ?n1 = "case d of None \<Rightarrow> n
             | Some dep \<Rightarrow> n(deploymentKey dep := n (deploymentKey dep) + 1)"
  have t: "tally k pods ?c1 ?n1 = Ok (cache', n')"
    using Cons.prems(1) c0 d by (cases d) (simp_all add: getDeploymentFromCache_def)
  have dist: "distinct (map podKey pods)" and notin: "podKey pod \<notin> podKey ` set pods"
    using Cons.prems(2) by simp_all
  have fresh: "\<forall>p\<in>set pods. ?c1 (podKey p) = None"
  proof
    fix p assume p: "p \<in> set pods"
    then have "podKey p \<in> podKey ` set pods" by (rule imageI)
    with notin have "podKey p \<noteq> podKey pod" by auto
    then show "?c1 (podKey p) = None" using Cons.prems(3) p by simp
  qed
  note ih = Cons.IH [OF t dist fresh]
  have here: "cache' (podKey pod) = Some d"
    using ih by simp
  have n1: "?n1 key = n key + of_nat (length (filter (resolvesTo k key) [pod]))" for key
    using d by (cases d) (simp_all add: resolvesTo_def)
  show ?case
  proof (intro conjI)
    show "\<forall>p\<in>set (pod # pods). \<exists>d. GetDeploymentFromPod k p = Ok d \<and> cache' (podKey p) = Some d"
      using ih d here by simp
    show "\<forall>key. cache key \<noteq> None \<longrightarrow> cache' key = cache key"
    proof (intro allI impI)
      fix key assume some: "cache key \<noteq> None"
      then have "key \<noteq> podKey pod" using c0 by auto
      then have "?c1 key = cache key" by simp
      moreover have "?c1 key \<noteq> None \<longrightarrow> cache' key = ?c1 key" using ih by blast
      ultimately show "cache' key = cache key" using some by simp
    qed
    show "\<forall>key. n' key = n key + of_nat (length (filter (resolvesTo k key) (pod # pods)))"
    proof
      fix key
      have "n' key = ?n1 key + of_nat (length (filter (resolvesTo k key) pods))"
        using ih by simp
      then show "n' key = n key + of_nat (length (filter (resolvesTo k key) (pod # pods)))"
        unfolding n1 by simp
    qed
  qed
qed

text \<open>
  The second loop keeps the restart list free of duplicate keys and appends a
  deployment exactly when a pod's cached deployment has as many replicas as the counter
  of its key.
\<close>

lemma classify_run:
  assumes "classify t nodeName cache n pods uniq rd dp = Ok (rd', dp')"
      and "uniq = deploymentKey ` set rd"
      and "distinct (map deploymentKey rd)"
  shows "distinct (map deploymentKey rd')
       \<and> set rd \<subseteq> set rd'
       \<and> (\<forall>d\<in>set rd'. d \<in> set rd \<or>
             (\<exists>p\<in>set pods. cache (podKey p) = Some (Some d) \<and> Replicas d = Some (n (deploymentKey d))))
       \<and> (\<forall>p\<in>set pods. \<forall>d. cache (podKey p) = Some (Some d) \<and> Replicas d = Some (n (deploymentKey d))
             \<longrightarrow> deploymentKey d \<in> deploymentKey ` set rd')"
  using assms
proof (induction pods arbitrary: uniq rd dp)
  case Nil
  then show ?case by simp
next
  case (Cons pod pods)
  from Cons.prems(1) obtain d where c: "cache (podKey pod) = Some (Some d)"
    by (cases "cache (podKey pod)") (auto split: option.splits)
  from Cons.prems(1) c obtain r where r: "Replicas d = Some r"
    by (cases "Replicas d") auto
  show ?case
  proof (cases "n (deploymentKey d) = r")
    case False
    then have "classify t nodeName cache n pods uniq rd dp = Ok (rd', dp')
             \<or> classify t nodeName cache n pods uniq rd (dp @ [pod]) = Ok (rd', dp')"
      using Cons.prems(1) c r by (simp split: if_splits)
    then have ih: "distinct (map deploymentKey rd')
       \<and> set rd \<subseteq> set rd'
       \<and> (\<forall>d\<in>set rd'. d \<in> set rd \<or>
             (\<exists>p\<in>set pods. cache (podKey p) = Some (Some d) \<and> Replicas d = Some (n (deploymentKey d))))
       \<and> (\<forall>p\<in>set pods. \<forall>d. cache (podKey p) = Some (Some d) \<and> Replicas d = Some (n (deploymentKey d))
             \<longrightarrow> deploymentKey d \<in> deploymentKey ` set rd')"
      using Cons.IH [OF _ Cons.prems(2,3)] by blast
    have this_pod: "\<forall>d'. cache (podKey pod) = Some (Some d') \<and> Replicas d' = Some (n (deploymentKey d'))
             \<longrightarrow> deploymentKey d' \<in> deploymentKey ` set rd'"
      using c r False by auto
    show ?thesis
      using ih this_pod by auto
  next
    case True
    show ?thesis
    proof (cases "deploymentKey d \<in> uniq")
      case in_uniq: True
      then have "classify t nodeName cache n pods uniq rd dp = Ok (rd', dp')"
        using Cons.prems(1) c r True by simp
      from Cons.IH [OF this Cons.prems(2,3)]
      have ih: "distinct (map deploymentKey rd')
       \<and> set rd \<subseteq> set rd'
       \<and> (\<forall>d\<in>set rd'. d \<in> set rd \<or>
             (\<exists>p\<in>set pods. cache (podKey p) = Some (Some d) \<and> Replicas d = Some (n (deploymentKey d))))
       \<and> (\<forall>p\<in>set pods. \<forall>d. cache (podKey p) = Some (Some d) \<and> Replicas d = Some (n (deploymentKey d))
             \<longrightarrow> deploymentKey d \<in> deploymentKey ` set rd')" .
      have "deploymentKey d \<in> deploymentKey ` set rd'"
        using in_uniq Cons.prems(2) ih by auto
      then have this_pod: "\<forall>d'. cache (podKey pod) = Some (Some d') \<and> Replicas d' = Some (n (deploymentKey d'))
             \<longrightarrow> deploymentKey d' \<in> deploymentKey ` set rd'"
        using c by auto
      show ?thesis
        using ih this_pod by auto
    next
      case new: False
      then have run: "classify t nodeName cache n pods (insert (deploymentKey d) uniq) (rd @ [d]) dp
                        = Ok (rd', dp')"
        using Cons.prems(1) c r True by simp
      have u: "insert (deploymentKey d) uniq = deploymentKey ` set (rd @ [d])"
        using Cons.prems(2) by auto
      have di: "distinct (map deploymentKey (rd @ [d]))"
        using Cons.prems(2,3) new by auto
      from Cons.IH [OF run u di]
      have ih: "distinct (map deploymentKey rd')
       \<and> set (rd @ [d]) \<subseteq> set rd'
       \<and> (\<forall>x\<in>set rd'. x \<in> set (rd @ [d]) \<or>
             (\<exists>p\<in>set pods. cache (podKey p) = Some (Some x) \<and> Replicas x = Some (n (deploymentKey x))))
       \<and> (\<forall>p\<in>set pods. \<forall>x. cache (podKey p) = Some (Some x) \<and> Replicas x = Some (n (deploymentKey x))
             \<longrightarrow> deploymentKey x \<in> deploymentKey ` set rd')" .
      have dhere: "cache (podKey pod) = Some (Some d) \<and> Replicas d = Some (n (deploymentKey d))"
        using c r True by simp
      have a: "distinct (map deploymentKey rd')" using ih by blast
      have b: "set rd \<subseteq> set rd'" using ih by auto
      have c': "\<forall>x\<in>set rd'. x \<in> set rd \<or>
             (\<exists>p\<in>set (pod # pods). cache (podKey p) = Some (Some x) \<and> Replicas x = Some (n (deploymentKey x)))"
      proof
        fix x assume "x \<in> set rd'"
        with ih have "x \<in> set (rd @ [d]) \<or>
             (\<exists>p\<in>set pods. cache (podKey p) = Some (Some x) \<and> Replicas x = Some (n (deploymentKey x)))"
          by blast
        then show "x \<in> set rd \<or>
             (\<exists>p\<in>set (pod # pods). cache (podKey p) = Some (Some x) \<and> Replicas x = Some (n (deploymentKey x)))"
          using dhere by auto
      qed
      have e: "\<forall>p\<in>set (pod # pods). \<forall>x. cache (podKey p) = Some (Some x) \<and> Replicas x = Some (n (deploymentKey x))
             \<longrightarrow> deploymentKey x \<in> deploymentKey ` set rd'"
      proof (intro ballI allI impI)
        fix p x assume p: "p \<in> set (pod # pods)"
          and x: "cache (podKey p) = Some (Some x) \<and> Replicas x = Some (n (deploymentKey x))"
        show "deploymentKey x \<in> deploymentKey ` set rd'"
        proof (cases "p = pod")
          case True
          with x c have "x = d" by simp
          moreover have "d \<in> set rd'" using ih by auto
          ultimately show ?thesis by blast
        next
          case False
          with p have "p \<in> set pods" by simp
          with ih x show ?thesis by blast
        qed
      qed
      from a b c' e show ?thesis by blast
    qed
  qed
qed

text \<open>
  Hence, when \<open>GetRestartdeploymentsAndDrainPods\<close> of \<open>terminator.go\<close> returns (no
  pod without deployment, no read error), for fewer than \<open>2 ^ 31\<close> pods of distinct
  keys: no key occurs twice in the restart set, every deployment in it was resolved
  from a listed pod and has as many desired replicas as pods resolve to its key, and
  the key of every such deployment is in the restart set.
\<close>

lemma GetRestartdeploymentsAndDrainPods_restart_rule:
  assumes ok: "GetRestartdeploymentsAndDrainPods k t pods nodeName = Ok (rd, dp)"
      and dist: "distinct (map podKey pods)"
      and len: "length pods < 2 ^ 31"
  shows "distinct (map deploymentKey rd)
     \<and> (\<forall>d\<in>set rd. \<exists>r. Replicas d = Some r
           \<and> (\<exists>p\<in>set pods. GetDeploymentFromPod k p = Ok (Some d))
           \<and> int (length (filter (resolvesTo k (deploymentKey d)) pods)) = sint r)
     \<and> (\<forall>p\<in>set pods. \<forall>d r. GetDeploymentFromPod k p = Ok (Some d) \<and> Replicas d = Some r
           \<and> int (length (filter (resolvesTo k (deploymentKey d)) pods)) = sint r
           \<longrightarrow> deploymentKey d \<in> deploymentKey ` set rd)"
proof -
  from ok obtain cache n where t: "tally k pods Map.empty (\<lambda>_. 0) = Ok (cache, n)"
    and c: "classify t nodeName cache n pods {} [] [] = Ok (rd, dp)"
    by (auto simp: GetRestartdeploymentsAndDrainPods_def split: res.splits)
  have tr: "(\<forall>p\<in>set pods. \<exists>d. GetDeploymentFromPod k p = Ok d \<and> cache (podKey p) = Some d)
       \<and> (\<forall>key. n key = 0 + of_nat (length (filter (resolvesTo k key) pods)))"
    using tally_run [OF t dist] by simp
  have cnt: "(n key = r) = (int (length (filter (resolvesTo k key) pods)) = sint r)" for key r
  proof -
    have "length (filter (resolvesTo k key) pods) \<le> length pods" by simp
    with len have "length (filter (resolvesTo k key) pods) < 2 ^ 31" by linarith
    from count_eq_replicas [OF this, of r] tr show ?thesis by simp
  qed
  have cr: "distinct (map deploymentKey rd)
       \<and> (\<forall>d\<in>set rd. d \<in> set [] \<or>
             (\<exists>p\<in>set pods. cache (podKey p) = Some (Some d) \<and> Replicas d = Some (n (deploymentKey d))))
       \<and> (\<forall>p\<in>set pods. \<forall>d. cache (podKey p) = Some (Some d) \<and> Replicas d = Some (n (deploymentKey d))
             \<longrightarrow> deploymentKey d \<in> deploymentKey ` set rd)"
    using classify_run [OF c] by simp
  have res: "(cache (podKey p) = Some (Some d)) = (GetDeploymentFromPod k p = Ok (Some d))"
    if "p \<in> set pods" for p d
    using tr that by auto
  show ?thesis
  proof (intro conjI)
    show "distinct (map deploymentKey rd)" using cr by blast
    show "\<forall>d\<in>set rd. \<exists>r. Replicas d = Some r
           \<and> (\<exists>p\<in>set pods. GetDeploymentFromPod k p = Ok (Some d))
           \<and> int (length (filter (resolvesTo k (deploymentKey d)) pods)) = sint r"
    proof
      fix d assume "d \<in> set rd"
      with cr obtain p where p: "p \<in> set pods" "cache (podKey p) = Some (Some d)"
        "Replicas d = Some (n (deploymentKey d))"
        by auto
      have "GetDeploymentFromPod k p = Ok (Some d)" using res [OF p(1), of d] p(2) by blast
      moreover have "int (length (filter (resolvesTo k (deploymentKey d)) pods)) = sint (n (deploymentKey d))"
        using cnt [of "deploymentKey d" "n (deploymentKey d)"] by simp
      ultimately show "\<exists>r. Replicas d = Some r
           \<and> (\<exists>p\<in>set pods. GetDeploymentFromPod k p = Ok (Some d))
           \<and> int (length (filter (resolvesTo k (deploymentKey d)) pods)) = sint r"
        using p(1,3) by blast
    qed
    show "\<forall>p\<in>set pods. \<forall>d r. GetDeploymentFromPod k p = Ok (Some d) \<and> Replicas d = Some r
           \<and> int (length (filter (resolvesTo k (deploymentKey d)) pods)) = sint r
           \<longrightarrow> deploymentKey d \<in> deploymentKey ` set rd"
    proof (intro ballI allI impI)
      fix p d r assume p: "p \<in> set pods"
        and h: "GetDeploymentFromPod k p = Ok (Some d) \<and> Replicas d = Some r
           \<and> int (length (filter (resolvesTo k (deploymentKey d)) pods)) = sint r"
      have "cache (podKey p) = Some (Some d)" using res [OF p, of d] h by blast
      moreover have "n (deploymentKey d) = r" using cnt [of "deploymentKey d" r] h by simp
      ultimately show "deploymentKey d \<in> deploymentKey ` set rd"
        using cr p h by blast
    qed
  qed
qed

section \<open>RestartDeployments\<close>

text \<open>
  A Terminator made by \<open>NewTerminator\<close> has no inner map for any node, and nothing in
  \<open>terminator.go\<close> creates one: the first restart that is not skipped panics before
  its Update call.
\<close>

lemma RestartDeployments_NewTerminator_panics:
  "(case RestartDeployments kube0 [api, web] ''n1'' NewTerminator of
      (r, ds, t) \<Rightarrow> (r, Updates t)) = (Panic NilMapWrite, [])"
  by (simp add: RestartDeployments_def kube0_def web_def api_def NewTerminator_def
      annotations_def restartedNode_def Let_def)

text \<open>
  Claim C6: restarting the same deployment for the same node twice performs exactly one
  Update call, because a performed restart stamps the annotation that the skip test
  reads. In part_000 the skip test reads \<open>kubectl.kubernetes.io/restartedNode\<close> and the
  restart writes \<open>kubectl.kubernetes.io/restartedAt\<close>: the second call, on the
  deployment as the first call left it, issues a second Update.
\<close>

theorem RestartDeployments_p0_twice_two_updates:
  "(case RestartDeployments_p0 kube0 [web] ''n1'' NewTerminator_p0 of
      (r1, ds1, t1) \<Rightarrow>
        (case RestartDeployments_p0 kube0 ds1 ''n1'' t1 of
           (r2, ds2, t2) \<Rightarrow> (r1, r2, length (Updates_p0 t1), length (Updates_p0 t2))))
   = (Ok (), Ok (), 1, 2)"
  by (simp add: kube0_def web_def NewTerminator_p0_def annotations_def restartedNode_def
      restartedAt_def Let_def)

text \<open>
  Claim C7: RestartDeployments attempts the update of every deployment even when some
  updates fail, and returns one combined error. In part_000 the first failing Update
  returns its error at once: with the update of \<open>api\<close> failing, \<open>web\<close> is never
  updated and is left without marker.
\<close>

theorem RestartDeployments_p0_stops_at_first_failure:
  "(case RestartDeployments_p0 kube_fail_api [api, web] ''n1'' NewTerminator_p0 of
      (r, ds, t) \<Rightarrow> (r, ds, Updates_p0 t))
   = (Err (ErrorString ''conflict''),
      [stamped restartedAt ''n1'' api, web],
      [stamped restartedAt ''n1'' api])"
  by (simp add: kube_fail_api_def kube0_def web_def api_def stamped_def NewTerminator_p0_def
      annotations_def restartedNode_def restartedAt_def Let_def)

subsection \<open>terminator.go with an inner map in place\<close>

text \<open>
  When \<open>nodeRestartDeployments\<close> holds a set for the node, the loop of
  \<open>RestartDeployments\<close> in \<open>terminator.go\<close> runs to its end: every deployment whose
  marker differs from the node name is recorded, stamped and sent to Update, and the
  errors of the failing updates are collected in order.
\<close>

lemma RestartDeployments_loop_run:
  assumes "nodeRestartDeployments t nodeName = Some s"
  shows "RestartDeployments_loop k nodeName ds errs t =
     (Ok (errs @ List.map_filter (\<lambda>d. Update k (stamped restartedNode nodeName d)) (attempted nodeName ds)),
      map (\<lambda>d. if map_of (annotations d) restartedNode = Some nodeName
                then d\<lparr>Annotations := Some (annotations d)\<rparr>
                else stamped restartedNode nodeName d) ds,
      t\<lparr>nodeRestartDeployments :=
           (nodeRestartDeployments t)(nodeName \<mapsto> s \<union> deploymentKey ` set (attempted nodeName ds)),
        Updates := Updates t @ map (stamped restartedNode nodeName) (attempted nodeName ds)\<rparr>)"
  using assms
proof (induction ds arbitrary: errs t s)
  case Nil
  then have "(nodeRestartDeployments t)(nodeName \<mapsto> s) = nodeRestartDeployments t"
    by (simp add: fun_upd_idem)
  then show ?case by (simp add: attempted_def List.map_filter_simps)
next
  case (Cons d ds)
  show ?case
  proof (cases "map_of (annotations d) restartedNode = Some nodeName")
    case True
    then show ?thesis
      using Cons.IH [OF Cons.prems, of errs]
      by (simp add: attempted_def Let_def)
  next
    case False
    let ?t2 = "t\<lparr>nodeRestartDeployments :=
                   (nodeRestartDeployments t)(nodeName \<mapsto> insert (deploymentKey d) s),
                Updates := Updates t @ [stamped restartedNode nodeName d]\<rparr>"
    let ?d1 = "stamped restartedNode nodeName d"
    have s2: "nodeRestartDeployments ?t2 nodeName = Some (insert (deploymentKey d) s)"
      by simp
    have ih: "RestartDeployments_loop k nodeName ds e ?t2 =
       (Ok (e @ List.map_filter (\<lambda>d. Update k (stamped restartedNode nodeName d)) (attempted nodeName ds)),
        map (\<lambda>d. if map_of (annotations d) restartedNode = Some nodeName
                  then d\<lparr>Annotations := Some (annotations d)\<rparr>
                  else stamped restartedNode nodeName d) ds,
        t\<lparr>nodeRestartDeployments :=
             (nodeRestartDeployments t)(nodeName \<mapsto>
                insert (deploymentKey d) (s \<union> deploymentKey ` set (attempted nodeName ds))),
          Updates := Updates t @ ?d1 # map (stamped restartedNode nodeName) (attempted nodeName ds)\<rparr>)" for e
      unfolding Cons.IH [OF s2] by simp
    have step: "RestartDeployments_loop k nodeName (d # ds) errs t =
       (case RestartDeployments_loop k nodeName ds
               (case Update k ?d1 of Some err \<Rightarrow> errs @ [err] | None \<Rightarrow> errs) ?t2 of
          (r, ds', t') \<Rightarrow> (r, ?d1 # ds', t'))"
      using False Cons.prems by (simp add: Let_def stamped_def)
    have att: "attempted nodeName (d # ds) = d # attempted nodeName ds"
      using False by (simp add: attempted_def)
    show ?thesis
      unfolding step ih att
      by (cases "Update k ?d1") (simp_all add: False List.map_filter_simps fun_upd_def)
  qed
qed

lemma RestartDeployments_run:
  assumes "nodeRestartDeployments t nodeName = Some s"
  shows "RestartDeployments k ds nodeName t =
     (let errs = List.map_filter (\<lambda>d. Update k (stamped restartedNode nodeName d)) (attempted nodeName ds)
      in if errs = [] then Ok () else Err (Errorv ''failed to restart some deployment: '' errs),
      map (\<lambda>d. if map_of (annotations d) restartedNode = Some nodeName
                then d\<lparr>Annotations := Some (annotations d)\<rparr>
                else stamped restartedNode nodeName d) ds,
      t\<lparr>nodeRestartDeployments :=
           (nodeRestartDeployments t)(nodeName \<mapsto> s \<union> deploymentKey ` set (attempted nodeName ds)),
        Updates := Updates t @ map (stamped restartedNode nodeName) (attempted nodeName ds)\<rparr>)"
  by (simp add: RestartDeployments_def RestartDeployments_loop_run [OF assms] Let_def)

text \<open>
  In that case a second call on the deployments as the first call left them skips all
  of them: \<open>terminator.go\<close> reads the marker under the key it writes.
\<close>

lemma attempted_after_restart:
  "attempted nodeName
     (map (\<lambda>d. if map_of (annotations d) restartedNode = Some nodeName
               then d\<lparr>Annotations := Some (annotations d)\<rparr>
               else stamped restartedNode nodeName d) ds) = []"
  by (induction ds) (auto simp: attempted_def stamped_def annotations_def update_conv')

lemma RestartDeployments_twice_no_second_update:
  assumes "nodeRestartDeployments t nodeName = Some s"
      and "RestartDeployments k ds nodeName t = (r1, ds1, t1)"
      and "RestartDeployments k ds1 nodeName t1 = (r2, ds2, t2)"
  shows "Updates t2 = Updates t1 \<and> r2 = Ok ()"
proof -
  have s1: "nodeRestartDeployments t1 nodeName = Some (s \<union> deploymentKey ` set (attempted nodeName ds))"
    using assms(2) unfolding RestartDeployments_run [OF assms(1)] by auto
  have ds1: "attempted nodeName ds1 = []"
    using assms(2) attempted_after_restart [of nodeName ds]
    unfolding RestartDeployments_run [OF assms(1)] by auto
  show ?thesis
    using assms(3) unfolding RestartDeployments_run [OF s1] ds1
    by (auto simp: List.map_filter_simps)
qed




section \<open>Evict\<close>

lemma Evict_loop_tiers:
  "Evict_loop k pods cND cD nCND nCD =
     (cND @ tierPods k pods CriticalNonDaemon, cD @ tierPods k pods CriticalDaemon,
      nCND @ tierPods k pods NonCriticalNonDaemon, nCD @ tierPods k pods NonCriticalDaemon)"
  by (induction pods arbitrary: cND cD nCND nCD) (simp_all add: tierPods_def tierOf_def critical_def)

lemma tierPods_nonempty: "p \<in> set pods \<Longrightarrow> tierPods k pods (tierOf k p) \<noteq> []"
  by (auto simp: tierPods_def filter_empty_conv)

lemma firstTier_first:
  assumes "firstTier k pods = Some x"
  shows "tierPods k pods x \<noteq> [] \<and> (\<forall>y. tierRank y < tierRank x \<longrightarrow> tierPods k pods y = [])"
proof
  show "tierPods k pods x \<noteq> []"
    using assms by (auto simp: firstTier_def tierOrder_def split: if_splits)
  show "\<forall>y. tierRank y < tierRank x \<longrightarrow> tierPods k pods y = []"
  proof (intro allI impI)
    fix y assume "tierRank y < tierRank x"
    then show "tierPods k pods y = []"
      using assms
      by (cases x; cases y) (auto simp: firstTier_def tierOrder_def split: if_splits)
  qed
qed

lemma firstTier_None: "(firstTier k pods = None) = (pods = [])"
proof
  assume n: "firstTier k pods = None"
  show "pods = []"
  proof (cases pods)
    case Nil
    then show ?thesis .
  next
    case (Cons p ps)
    then have "tierPods k pods (tierOf k p) \<noteq> []"
      by (simp add: tierPods_nonempty)
    with n show ?thesis
      by (cases "tierOf k p") (auto simp: firstTier_def tierOrder_def split: if_splits)
  qed
next
  assume "pods = []"
  then show "firstTier k pods = None"
    by (simp add: firstTier_def tierOrder_def tierPods_def)
qed

text \<open>
  Claim C3: for every pod list, \<open>Evict\<close> partitions the pods into the four tiers (the
  four lists of the loop are the pods of each tier, every pod is in the list of its own
  tier and in no other) and adds to the eviction queue exactly the pods of the first
  non-empty tier in the order nonCriticalNonDaemon, nonCriticalDaemon,
  criticalNonDaemon, criticalDaemon: one Add call with that tier's pods, all earlier
  tiers being empty, and nothing at all for an empty pod list. Both sources agree.
\<close>

theorem Evict_first_non_empty_tier:
  "Evict_loop k pods [] [] [] [] =
     (tierPods k pods CriticalNonDaemon, tierPods k pods CriticalDaemon,
      tierPods k pods NonCriticalNonDaemon, tierPods k pods NonCriticalDaemon)
   \<and> (\<forall>p\<in>set pods. \<forall>x. p \<in> set (tierPods k pods x) \<longleftrightarrow> x = tierOf k p)
   \<and> Evict k pods t =
       (case firstTier k pods of
          None \<Rightarrow> t
        | Some x \<Rightarrow> t\<lparr>QueueAdds := QueueAdds t @ [tierPods k pods x]\<rparr>)
   \<and> Evict_p0 k pods t0 =
       (case firstTier k pods of
          None \<Rightarrow> t0
        | Some x \<Rightarrow> t0\<lparr>QueueAdds_p0 := QueueAdds_p0 t0 @ [tierPods k pods x]\<rparr>)
   \<and> (\<forall>x. firstTier k pods = Some x \<longrightarrow>
         tierPods k pods x \<noteq> [] \<and> (\<forall>y. tierRank y < tierRank x \<longrightarrow> tierPods k pods y = []))
   \<and> ((firstTier k pods = None) = (pods = []))"
proof (intro conjI)
  show "Evict_loop k pods [] [] [] [] =
     (tierPods k pods CriticalNonDaemon, tierPods k pods CriticalDaemon,
      tierPods k pods NonCriticalNonDaemon, tierPods k pods NonCriticalDaemon)"
    by (simp add: Evict_loop_tiers)
  show "\<forall>p\<in>set pods. \<forall>x. p \<in> set (tierPods k pods x) \<longleftrightarrow> x = tierOf k p"
    by (auto simp: tierPods_def)
  show "Evict k pods t =
       (case firstTier k pods of
          None \<Rightarrow> t
        | Some x \<Rightarrow> t\<lparr>QueueAdds := QueueAdds t @ [tierPods k pods x]\<rparr>)"
    by (simp add: Evict_def Evict_loop_tiers firstTier_def tierOrder_def)
  show "Evict_p0 k pods t0 =
       (case firstTier k pods of
          None \<Rightarrow> t0
        | Some x \<Rightarrow> t0\<lparr>QueueAdds_p0 := QueueAdds_p0 t0 @ [tierPods k pods x]\<rparr>)"
    by (simp add: Evict_p0_def Evict_loop_tiers firstTier_def tierOrder_def)
  show "\<forall>x. firstTier k pods = Some x \<longrightarrow>
         tierPods k pods x \<noteq> [] \<and> (\<forall>y. tierRank y < tierRank x \<longrightarrow> tierPods k pods y = [])"
    using firstTier_first by blast
  show "(firstTier k pods = None) = (pods = [])"
    by (rule firstTier_None)
qed

text \<open>
  Witness for C3: a critical daemon pod, a critical pod of the node and two ordinary
  pods. Both sources add the two ordinary pods, in the order of the list, and nothing
  else.
\<close>

theorem Evict_first_non_empty_tier_witness:
  "QueueAdds (Evict kube_daemon [daemon_pod, bare_pod, node_pod, zero_grace_pod] NewTerminator)
     = [[bare_pod, zero_grace_pod]]
   \<and> QueueAdds_p0 (Evict_p0 kube_daemon [daemon_pod, bare_pod, node_pod, zero_grace_pod] NewTerminator_p0)
     = [[bare_pod, zero_grace_pod]]"
  using Evict_first_non_empty_tier
    [of kube_daemon "[daemon_pod, bare_pod, node_pod, zero_grace_pod]" NewTerminator NewTerminator_p0]
  by (simp add: firstTier_def tierOrder_def tierPods_def tierOf_def critical_def kube_daemon_def
      kube0_def daemon_pod_def bare_pod_def node_pod_def zero_grace_pod_def NewTerminator_def
      NewTerminator_p0_def)

section \<open>DeleteExpiringPods\<close>

text \<open>
  For a grace period of at most 9223372036 seconds in absolute value the product
  \<open>time.Duration(g) * time.Second * -1\<close> does not wrap.
\<close>

lemma neg_grace_nanoseconds:
  fixes g :: "64 word"
  assumes "\<bar>sint g\<bar> \<le> 9223372036"
  shows "sint (- (g * 1000000000)) = - (sint g * 1000000000)"
proof -
  have b: "- (2 ^ 63) \<le> - (sint g * 1000000000) \<and> - (sint g * 1000000000) < (2 ^ 63 :: int)"
  proof -
    have "(2 :: int) ^ 63 = 9223372036854775808" by simp
    with assms show ?thesis by linarith
  qed
  have "sint (- (g * 1000000000)) = signed_take_bit 63 (- (sint g * 1000000000))"
    by (simp add: sint_word_ariths signed_take_bit_minus signed_take_bit_mult)
  also have "\<dots> = - (sint g * 1000000000)"
    using b by (simp add: signed_take_bit_int_eq_self)
  finally show ?thesis .
qed

lemma Seconds_int64_Sub:
  assumes "\<bar>deadline - now\<bar> < 2 ^ 23 * 1000000000"
  shows "Seconds_int64 (Sub deadline now) = remainingSeconds deadline now"
proof -
  have "(2 :: int) ^ 23 * 1000000000 = 8388608000000000" and "(2 :: int) ^ 63 = 9223372036854775808"
    by simp_all
  with assms have "- (2 ^ 63) \<le> deadline - now \<and> deadline - now < (2 ^ 63 :: int)"
    by linarith
  then show ?thesis
    by (simp add: Seconds_int64_def Sub_def remainingSeconds_def)
qed

text \<open>
  One iteration of the loop on any clock: the test uses one reading, the grace period
  of the Delete the next one.
\<close>

lemma DeleteExpiringPods_body_two_readings:
  assumes "TerminationGracePeriodSeconds pod = Some g" and "\<bar>sint g\<bar> \<le> 9223372036"
  shows "Deletes_p0 (snd (DeleteExpiringPods_body k (Some deadline) pod t)) =
           Deletes_p0 t @
             (if Now k (Ticks_p0 t) > deadline - sint g * 1000000000
              then [(pod, Seconds_int64 (Sub deadline (Now k (Suc (Ticks_p0 t)))))]
              else [])"
proof -
  have dt: "podDeleteTimeWithGracePeriod_p0 (Some deadline) pod = Some (deadline - sint g * 1000000000)"
    using assms by (simp add: podDeleteTimeWithGracePeriod_p0_def neg_grace_nanoseconds)
  show ?thesis
    by (cases "Delete k pod (Seconds_int64 (Sub deadline (Now k (Suc (Ticks_p0 t)))))")
       (simp_all add: DeleteExpiringPods_body_def dt Let_def)
qed

text \<open>One iteration of the loop, when both readings of the clock give \<open>now\<close>.\<close>

lemma DeleteExpiringPods_body_constant_clock:
  assumes clock: "\<forall>n. Now k n = now"
      and range: "\<forall>g. TerminationGracePeriodSeconds pod = Some g \<longrightarrow> \<bar>sint g\<bar> \<le> 9223372036"
      and near: "\<bar>deadline - now\<bar> < 2 ^ 23 * 1000000000"
      and del: "\<forall>e. Delete k pod (remainingSeconds deadline now) = Some e \<longrightarrow> IsNotFound e"
  shows "fst (DeleteExpiringPods_body k (Some deadline) pod t) = Ok ()
       \<and> Deletes_p0 (snd (DeleteExpiringPods_body k (Some deadline) pod t)) =
           Deletes_p0 t @ (if expiring deadline now pod then [(pod, remainingSeconds deadline now)] else [])"
proof (cases "TerminationGracePeriodSeconds pod")
  case None
  then show ?thesis
    by (simp add: DeleteExpiringPods_body_def podDeleteTimeWithGracePeriod_p0_def expiring_def)
next
  case (Some g)
  have dt: "podDeleteTimeWithGracePeriod_p0 (Some deadline) pod = Some (deadline - sint g * 1000000000)"
    using Some range by (simp add: podDeleteTimeWithGracePeriod_p0_def neg_grace_nanoseconds)
  show ?thesis
    using Some clock del
    by (cases "Delete k pod (remainingSeconds deadline now)")
       (simp_all add: DeleteExpiringPods_body_def dt Let_def expiring_def Seconds_int64_Sub [OF near])
qed

lemma remainingSeconds_less_grace:
  assumes "now > deadline - g * 1000000000" and "1 \<le> g"
  shows "remainingSeconds deadline now < g"
proof (cases "deadline - now \<ge> 0")
  case True
  have "deadline - now < g * 1000000000" using assms by simp
  then have "(deadline - now) div 1000000000 < g"
    by (simp add: div_less_iff_less_mult)
  then show ?thesis using True
    by (cases "deadline - now = 0") (simp_all add: remainingSeconds_def)
next
  case False
  then have "remainingSeconds deadline now \<le> 0"
    by (simp add: remainingSeconds_def sgn_if)
  then show ?thesis using assms by simp
qed

text \<open>
  Claim C4, as amended: for a deadline, a current time \<open>now\<close> within \<open>2 ^ 23\<close> seconds
  of it and candidate pods whose grace periods are at most 9223372036 seconds in
  absolute value, when no Delete fails with an error other than NotFound,
  \<open>DeleteExpiringPods\<close> returns without error and issues a Delete for exactly the pods
  with a grace period \<open>g\<close> for which \<open>now\<close> is after the deadline minus \<open>g\<close>, in the
  order of the list. The grace period of each Delete is the time from \<open>now\<close> to the
  deadline in whole seconds truncated towards zero: it is \<open>max(0, deadline - now)\<close> as
  long as \<open>now\<close> is not past the deadline, and zero or negative (not clamped at 0) once
  it is; it is less than the pod's own \<open>g\<close> whenever \<open>g\<close> is at least 1.
\<close>

theorem DeleteExpiringPods_p0_grace:
  assumes clock: "\<forall>n. Now k n = now"
      and range: "\<forall>p\<in>set pods. \<forall>g. TerminationGracePeriodSeconds p = Some g \<longrightarrow> \<bar>sint g\<bar> \<le> 9223372036"
      and near: "\<bar>deadline - now\<bar> < 2 ^ 23 * 1000000000"
      and del: "\<forall>p\<in>set pods. \<forall>e. Delete k p (remainingSeconds deadline now) = Some e \<longrightarrow> IsNotFound e"
  shows "fst (DeleteExpiringPods_p0 k pods (Some deadline) t) = Ok ()
       \<and> Deletes_p0 (snd (DeleteExpiringPods_p0 k pods (Some deadline) t)) =
           Deletes_p0 t @ map (\<lambda>p. (p, remainingSeconds deadline now)) (filter (expiring deadline now) pods)
       \<and> (\<forall>p\<in>set pods. \<forall>g. TerminationGracePeriodSeconds p = Some g \<and> expiring deadline now p \<and> 1 \<le> sint g
             \<longrightarrow> remainingSeconds deadline now < sint g)
       \<and> (now \<le> deadline \<longrightarrow> remainingSeconds deadline now = max 0 ((deadline - now) div 1000000000))
       \<and> (deadline < now \<longrightarrow> remainingSeconds deadline now = - ((now - deadline) div 1000000000))"
proof -
  have run: "fst (DeleteExpiringPods_p0 k pods (Some deadline) t) = Ok ()
       \<and> Deletes_p0 (snd (DeleteExpiringPods_p0 k pods (Some deadline) t)) =
           Deletes_p0 t @ map (\<lambda>p. (p, remainingSeconds deadline now)) (filter (expiring deadline now) pods)"
    using range del
  proof (induction pods arbitrary: t)
    case Nil
    then show ?case by simp
  next
    case (Cons pod pods)
    obtain r t1 where b: "DeleteExpiringPods_body k (Some deadline) pod t = (r, t1)"
      by (cases "DeleteExpiringPods_body k (Some deadline) pod t") auto
    have body: "r = Ok () \<and> Deletes_p0 t1 =
        Deletes_p0 t @ (if expiring deadline now pod then [(pod, remainingSeconds deadline now)] else [])"
      using DeleteExpiringPods_body_constant_clock [OF clock _ near, of pod t] Cons.prems b
      by simp
    have ih: "fst (DeleteExpiringPods_p0 k pods (Some deadline) t1) = Ok ()
       \<and> Deletes_p0 (snd (DeleteExpiringPods_p0 k pods (Some deadline) t1)) =
           Deletes_p0 t1 @ map (\<lambda>p. (p, remainingSeconds deadline now)) (filter (expiring deadline now) pods)"
      using Cons.IH [of t1] Cons.prems by simp
    show ?case using b body ih by simp
  qed
  have less: "\<forall>p\<in>set pods. \<forall>g. TerminationGracePeriodSeconds p = Some g \<and> expiring deadline now p \<and> 1 \<le> sint g
             \<longrightarrow> remainingSeconds deadline now < sint g"
    using remainingSeconds_less_grace by (auto simp: expiring_def)
  have pos: "now \<le> deadline \<longrightarrow> remainingSeconds deadline now = max 0 ((deadline - now) div 1000000000)"
    by (cases "deadline = now") (auto simp: remainingSeconds_def sgn_if max_def)
  have neg: "deadline < now \<longrightarrow> remainingSeconds deadline now = - ((now - deadline) div 1000000000)"
    by (auto simp: remainingSeconds_def sgn_if abs_if)
  from run less pos neg show ?thesis by blast
qed

text \<open>
  Witness for C4: deadline at 100 s, \<open>now\<close> at 80 s. The pod with a grace period of
  30 s is deleted with 20 s; the pod with a grace period of 0 s is not deleted.
\<close>

theorem DeleteExpiringPods_p0_grace_witness:
  "Deletes_p0 (snd (DeleteExpiringPods_p0 (kube_at 80000000000) [zero_grace_pod, bare_pod]
                      (Some 100000000000) NewTerminator_p0))
     = [(bare_pod, 20)]"
proof -
  have clock: "\<forall>n. Now (kube_at 80000000000) n = 80000000000"
    by (simp add: kube_at_def kube0_def)
  have range: "\<forall>p\<in>set [zero_grace_pod, bare_pod]. \<forall>g. TerminationGracePeriodSeconds p = Some g
                 \<longrightarrow> \<bar>sint g\<bar> \<le> 9223372036"
    by (auto simp: zero_grace_pod_def bare_pod_def)
  have near: "\<bar>100000000000 - 80000000000\<bar> < (2 ^ 23 * 1000000000 :: int)"
    by simp
  have del: "\<forall>p\<in>set [zero_grace_pod, bare_pod]. \<forall>e.
               Delete (kube_at 80000000000) p (remainingSeconds 100000000000 80000000000) = Some e
                 \<longrightarrow> IsNotFound e"
    by (simp add: kube_at_def kube0_def)
  from DeleteExpiringPods_p0_grace [OF clock range near del, of NewTerminator_p0]
  show ?thesis
    by (simp add: expiring_def remainingSeconds_def zero_grace_pod_def bare_pod_def NewTerminator_p0_def)
qed

text \<open>
  Counterexample to C4 as stated: with the deadline at 100 s and \<open>now\<close> at 110 s the
  pod with a grace period of 30 s is deleted with a grace period of -10 s, where
  \<open>max(0, deadline - now)\<close> is 0; and with \<open>now\<close> at 100.5 s the pod with a grace
  period of 0 s is deleted with a grace period of 0 s, its own.
\<close>

theorem DeleteExpiringPods_p0_grace_not_clamped:
  "Deletes_p0 (snd (DeleteExpiringPods_p0 (kube_at 110000000000) [bare_pod]
                      (Some 100000000000) NewTerminator_p0))
     = [(bare_pod, - 10)]
   \<and> max 0 ((100000000000 - 110000000000) div 1000000000) = (0 :: int)
   \<and> Deletes_p0 (snd (DeleteExpiringPods_p0 (kube_at 100500000000) [zero_grace_pod]
                      (Some 100000000000) NewTerminator_p0))
     = [(zero_grace_pod, 0)]
   \<and> TerminationGracePeriodSeconds zero_grace_pod = Some 0"
  by (simp add: DeleteExpiringPods_body_def podDeleteTimeWithGracePeriod_p0_def Let_def
      kube_at_def kube0_def bare_pod_def zero_grace_pod_def NewTerminator_p0_def
      Sub_def Seconds_int64_def)

section \<open>Drain\<close>





section \<open>Taint\<close>

lemma find_None_iff_not_ex: "(find P xs = None) = (\<not> (\<exists>x\<in>set xs. P x))"
  by (induction xs) auto

text \<open>
  Claim C8, as amended: after \<open>Taint\<close> returns successfully the load-balancer-exclusion
  label is present with the value \<open>karpenter\<close>. A taint counts as already present when
  its key and effect match the desired taint, whatever its value: if the node has such a
  taint, its taints are left as they are, other taints with the same key included; if
  it has none, every taint with the desired key is removed and the desired taint is
  appended, so that it is then the only taint with that key.
\<close>

theorem Taint_p0_result:
  assumes "Taint_p0 k node taint t = (Ok (), node', t')"
  shows "map_of (Labels node') LabelNodeExcludeBalancers = Some ''karpenter''
    \<and> ((\<exists>x\<in>set (Taints node). TaintKey x = TaintKey taint \<and> Effect x = Effect taint)
          \<longrightarrow> Taints node' = Taints node)
    \<and> (\<not> (\<exists>x\<in>set (Taints node). TaintKey x = TaintKey taint \<and> Effect x = Effect taint)
          \<longrightarrow> filter (\<lambda>x. TaintKey x = TaintKey taint) (Taints node') = [taint]
            \<and> Taints node' = filter (\<lambda>x. TaintKey x \<noteq> TaintKey taint) (Taints node) @ [taint])"
proof -
  let ?m = "\<exists>x\<in>set (Taints node). TaintKey x = TaintKey taint \<and> Effect x = Effect taint"
  let ?node1 = "if ?m then node
      else node\<lparr>Taints := filter (\<lambda>x. \<not> (TaintKey x = TaintKey taint)) (Taints node) @ [taint]\<rparr>"
  have f: "(find (\<lambda>x. MatchTaint x taint) (Taints node) = None) = (\<not> ?m)"
    by (simp add: find_None_iff_not_ex MatchTaint_def)
  have n': "node' = ?node1\<lparr>Labels := AList.update LabelNodeExcludeBalancers ''karpenter'' (Labels ?node1)\<rparr>"
  proof (cases "find (\<lambda>x. MatchTaint x taint) (Taints node)")
    case None
    then have "\<not> ?m" using f by simp
    with None assms show ?thesis
      by (auto simp: Taint_p0_def Let_def split: if_splits option.splits)
  next
    case (Some a)
    then have "?m" using f by simp
    with Some assms show ?thesis
      by (auto simp: Taint_p0_def Let_def split: if_splits option.splits)
  qed
  have l: "map_of (Labels node') LabelNodeExcludeBalancers = Some ''karpenter''"
    by (simp add: n' update_conv')
  have a: "?m \<longrightarrow> Taints node' = Taints node"
    by (simp add: n')
  have b: "\<not> ?m \<longrightarrow> filter (\<lambda>x. TaintKey x = TaintKey taint) (Taints node') = [taint]
            \<and> Taints node' = filter (\<lambda>x. TaintKey x \<noteq> TaintKey taint) (Taints node) @ [taint]"
    by (auto simp: n')
  from l a b show ?thesis by blast
qed

text \<open>
  Witness for C8: the node has the desired key with another effect and an unrelated
  taint; the first is replaced by the desired taint, the second is kept, and the label
  is set.
\<close>

theorem Taint_p0_result_witness:
  "fst (Taint_p0 kube0 node_other_effect k_taint NewTerminator_p0) = Ok ()
   \<and> Taints (fst (snd (Taint_p0 kube0 node_other_effect k_taint NewTerminator_p0)))
       = [\<lparr>TaintKey = ''dedicated'', TaintValue = ''gpu'', Effect = NoSchedule\<rparr>, k_taint]
   \<and> map_of (Labels (fst (snd (Taint_p0 kube0 node_other_effect k_taint NewTerminator_p0))))
        LabelNodeExcludeBalancers = Some ''karpenter''"
proof -
  let ?r = "Taint_p0 kube0 node_other_effect k_taint NewTerminator_p0"
  have ok: "fst ?r = Ok ()"
    by (simp add: Taint_p0_def Let_def kube0_def node_other_effect_def k_taint_def MatchTaint_def
        LabelNodeExcludeBalancers_def)
  then have r: "?r = (Ok (), fst (snd ?r), snd (snd ?r))"
    by (metis prod.collapse)
  from Taint_p0_result [OF r] ok show ?thesis
    by (simp add: node_other_effect_def k_taint_def)
qed

text \<open>
  Counterexample to C8 as stated: the node has the desired key twice, once with the
  desired effect and once with another. \<open>Taint\<close> succeeds and leaves both: two taints
  with the desired key, and the one with the different effect neither removed nor
  replaced.
\<close>

theorem Taint_p0_keeps_same_key_other_effect:
  "fst (Taint_p0 kube0 node_two_effects k_taint NewTerminator_p0) = Ok ()
   \<and> filter (\<lambda>x. TaintKey x = TaintKey k_taint)
        (Taints (fst (snd (Taint_p0 kube0 node_two_effects k_taint NewTerminator_p0))))
      = [\<lparr>TaintKey = ''karpenter.sh/disrupted'', TaintValue = ''old'', Effect = NoSchedule\<rparr>,
         \<lparr>TaintKey = ''karpenter.sh/disrupted'', TaintValue = ''old'', Effect = NoExecute\<rparr>]"
  by (simp add: Taint_p0_def Let_def kube0_def node_two_effects_def k_taint_def MatchTaint_def
        LabelNodeExcludeBalancers_def)

end
